theory Spec2Isabelle
  imports Main "HOL-Library.Word"
begin

section \<open>Common conventions\<close>

text \<open>
  A Go value of interface type \<open>error\<close> is modelled as an option: \<open>None\<close> is the
  \<open>nil\<close> error. A Go multiple return \<open>(x, err)\<close> is a pair. A pointer result that
  the code dereferences is an option (\<open>None\<close> is the nil pointer) and the dereference of
  nil is the panic \<open>NilPointerDereference\<close>. A byte slice is a list of bytes; the nil
  slice and the empty slice are both the empty list.
\<close>

type_synonym byte = "8 word"

datatype panic = NilPointerDereference

text \<open>
  The non-nil values of the interface type \<open>error\<close>: the package-level value
  \<open>codec.ErrInvalidMessage\<close>, a value made on the spot by \<open>errors.New\<close>,
  or an error value made by a collaborator outside the repository (the embedded stream,
  the protobuf library, the router, the selector), named by its text. A collaborator
  cannot return the repository's own \<open>ErrInvalidMessage\<close> value, which the last
  constructor keeps apart.
\<close>

datatype error = ErrInvalidMessage | errors_New string | External string

section \<open>Package stream: a stream session over an embedded duplex stream\<close>

text \<open>
  The Go interface \<open>Stream\<close> (Context, SendMsg, RecvMsg, Close). The embedded value
  is an object of a collaborator: its methods are taken as functions over the state
  \<open>'u\<close> of that object (which stands for everything the calls read and write,
  including the memory behind the pointer handed to RecvMsg).
\<close>

record ('u, 'v, 'c) Stream =
  Context :: "'u \<Rightarrow> 'c"
  SendMsg :: "'v \<Rightarrow> 'u \<Rightarrow> error option \<times> 'u"
  RecvMsg :: "'v \<Rightarrow> 'u \<Rightarrow> error option \<times> 'u"
  Close :: "'u \<Rightarrow> error option \<times> 'u"

text \<open>
  \<open>type request struct { client.Request; context context.Context }\<close>; the field
  \<open>context\<close> is named \<open>request_context\<close> here.
\<close>

record ('q, 'c) request =
  Request :: 'q
  request_context :: 'c

text \<open>
  \<open>type stream struct { Stream; err error; request *request; sync.RWMutex }\<close>.
  The field \<open>Stream\<close> holds the state of the embedded object. The lock only
  serialises the accesses to \<open>err\<close>; the calls are modelled one after the other.
\<close>

record ('u, 'q, 'c) stream =
  Stream :: 'u
  err :: "error option"
  request :: "('q, 'c) request"

definition request_Read :: "('q, 'c) request \<Rightarrow> byte list \<times> error option" where
  "request_Read r = ([], None)"

definition stream_Request :: "('u, 'q, 'c) stream \<Rightarrow> ('q, 'c) request" where
  "stream_Request s = request s"

definition Send ::
  "('u, 'v, 'c) Stream \<Rightarrow> 'v \<Rightarrow> ('u, 'q, 'c) stream
    \<Rightarrow> error option \<times> ('u, 'q, 'c) stream" where
  "Send m v s =
     (case SendMsg m v (Stream s) of
        (e, u) \<Rightarrow> (e, if e \<noteq> None then s\<lparr>Stream := u, err := e\<rparr> else s\<lparr>Stream := u\<rparr>))"

definition Recv ::
  "('u, 'v, 'c) Stream \<Rightarrow> 'v \<Rightarrow> ('u, 'q, 'c) stream
    \<Rightarrow> error option \<times> ('u, 'q, 'c) stream" where
  "Recv m v s =
     (case RecvMsg m v (Stream s) of
        (e, u) \<Rightarrow> (e, if e \<noteq> None then s\<lparr>Stream := u, err := e\<rparr> else s\<lparr>Stream := u\<rparr>))"

definition stream_Error :: "('u, 'q, 'c) stream \<Rightarrow> error option" where
  "stream_Error s = err s"

text \<open>
  \<open>New(service, endpoint, req, s)\<close>; \<open>client.DefaultClient.NewRequest\<close> belongs to
  a collaborator and is the parameter \<open>NewRequest\<close>.
\<close>

definition New ::
  "(string \<Rightarrow> string \<Rightarrow> 'r \<Rightarrow> 'q) \<Rightarrow> ('u, 'v, 'c) Stream
    \<Rightarrow> string \<Rightarrow> string \<Rightarrow> 'r \<Rightarrow> 'u \<Rightarrow> ('u, 'q, 'c) stream" where
  "New NewRequest m service endpoint req s =
     \<lparr>Stream = s, err = None,
      request = \<lparr>Request = NewRequest service endpoint req, request_context = Context m s\<rparr>\<rparr>"

text \<open>A sequence of calls on one session, and the errors they return, in order.\<close>

datatype 'v call = CallSend 'v | CallRecv 'v

fun perform ::
  "('u, 'v, 'c) Stream \<Rightarrow> 'v call \<Rightarrow> ('u, 'q, 'c) stream
    \<Rightarrow> error option \<times> ('u, 'q, 'c) stream" where
  "perform m (CallSend v) s = Send m v s"
| "perform m (CallRecv v) s = Recv m v s"

fun run ::
  "('u, 'v, 'c) Stream \<Rightarrow> 'v call list \<Rightarrow> ('u, 'q, 'c) stream
    \<Rightarrow> error option list \<times> ('u, 'q, 'c) stream" where
  "run m [] s = ([], s)"
| "run m (c # cs) s =
     (case perform m c s of (e, s') \<Rightarrow> (case run m cs s' of (es, s'') \<Rightarrow> (e # es, s'')))"

text \<open>The most recent non-nil error of a list of returned errors, \<open>l\<close> when there is none.\<close>

fun latest :: "error option \<Rightarrow> error option list \<Rightarrow> error option" where
  "latest l [] = l"
| "latest l (None # es) = latest l es"
| "latest l (Some e # es) = latest (Some e) es"

text \<open>
  A test double for the embedded stream: its state is the script of the results its
  next calls return (nil once the script is used up).
\<close>

definition scripted :: "(error option list, 'v, unit) Stream" where
  "scripted =
     \<lparr>Context = (\<lambda>u. ()),
      SendMsg = (\<lambda>v u. case u of [] \<Rightarrow> (None, []) | r # rs \<Rightarrow> (r, rs)),
      RecvMsg = (\<lambda>v u. case u of [] \<Rightarrow> (None, []) | r # rs \<Rightarrow> (r, rs)),
      Close = (\<lambda>u. (None, u))\<rparr>"

definition session :: "error option list \<Rightarrow> (error option list, unit, unit) stream" where
  "session script =
     New (\<lambda>service endpoint req. ()) (scripted :: (error option list, string, unit) Stream)
       ''svc'' ''ep'' () script"

section \<open>Package server: a transport message as a broker event\<close>

text \<open>
  \<open>transport.Message\<close> and \<open>broker.Message\<close> are two struct types, each with a
  header map and a body. A Go map read at an absent key gives the zero value, so the
  nil map and the empty map read alike and both are \<open>Map.empty\<close>.
\<close>

record transport_Message =
  Header :: "string \<rightharpoonup> string"
  Body :: "byte list"

record broker_Message =
  broker_Header :: "string \<rightharpoonup> string"
  broker_Body :: "byte list"

text \<open>\<open>type event struct { err error; message *broker.Message }\<close>\<close>

record event =
  event_err :: "error option"
  event_message :: "broker_Message option"

definition event_Ack :: "event \<Rightarrow> error option \<times> event" where
  "event_Ack e = (None, e)"

definition event_Message :: "event \<Rightarrow> broker_Message option" where
  "event_Message e = event_message e"

definition event_Error :: "event \<Rightarrow> error option" where
  "event_Error e = event_err e"

text \<open>
  \<open>e.message.Header[headers.Message]\<close>: the constant \<open>headers.Message\<close> is declared
  in a package outside the sources at hand and is the parameter \<open>headers_Message\<close>.
\<close>

definition event_Topic :: "string \<Rightarrow> event \<Rightarrow> panic + string" where
  "event_Topic headers_Message e =
     (case event_message e of
        None \<Rightarrow> Inl NilPointerDereference
      | Some m \<Rightarrow>
          (case broker_Header m headers_Message of
             None \<Rightarrow> Inr []
           | Some t \<Rightarrow> Inr t))"

definition newEvent :: "transport_Message \<Rightarrow> event" where
  "newEvent msg =
     \<lparr>event_err = None,
      event_message = Some \<lparr>broker_Header = Header msg, broker_Body = Body msg\<rparr>\<rparr>"

section \<open>Package codec/proto: the protobuf marshaler\<close>

text \<open>
  The argument \<open>v interface{}\<close>: either its dynamic type implements
  \<open>proto.Message\<close> (the assertion \<open>v.(proto.Message)\<close> succeeds), or it does
  not (the nil interface included).
\<close>

datatype ('pb, 'o) interface = ProtoMessage 'pb | Other 'o

fun is_proto_Message :: "('pb, 'o) interface \<Rightarrow> bool" where
  "is_proto_Message (ProtoMessage pb) = True"
| "is_proto_Message (Other x) = False"

text \<open>
  \<open>proto.Marshal\<close> and \<open>proto.Unmarshal\<close> of the protobuf library are the parameters
  \<open>proto_Marshal\<close> and \<open>proto_Unmarshal\<close>; the latter writes into the message.
\<close>

definition Marshal ::
  "('pb \<Rightarrow> byte list \<times> string option) \<Rightarrow> ('pb, 'o) interface \<Rightarrow> byte list \<times> error option" where
  "Marshal proto_Marshal v =
     (case v of
        Other x \<Rightarrow> ([], Some ErrInvalidMessage)
      | ProtoMessage pb \<Rightarrow>
          (case proto_Marshal pb of
             (buf, Some e) \<Rightarrow> ([], Some (External e))
           | (buf, None) \<Rightarrow> (buf, None)))"

definition Unmarshal ::
  "(byte list \<Rightarrow> 'pb \<Rightarrow> string option \<times> 'pb) \<Rightarrow> byte list \<Rightarrow> ('pb, 'o) interface
    \<Rightarrow> error option \<times> ('pb, 'o) interface" where
  "Unmarshal proto_Unmarshal data v =
     (case v of
        Other x \<Rightarrow> (Some ErrInvalidMessage, v)
      | ProtoMessage pb \<Rightarrow>
          (case proto_Unmarshal data pb of
             (e, pb') \<Rightarrow> (map_option External e, ProtoMessage pb')))"

section \<open>Package http: the reverse proxy handler\<close>

text \<open>
  \<open>router.Route\<close> (of which the handler reads \<open>Versions\<close>) and \<open>registry.Node\<close>
  (of which it reads \<open>Address\<close>).
\<close>

record Node =
  Address :: string

record 'sv Route =
  Versions :: "'sv list"

text \<open>
  \<open>handler.Options\<close>: the field \<open>Router\<close> is nil or a router, whose method
  \<open>Route(r)\<close> returns \<open>(*router.Route, error)\<close>.
\<close>

record ('rq, 'sv) Options =
  Router :: "('rq \<Rightarrow> 'sv Route option \<times> error option) option"

text \<open>
  \<open>getService\<close>. \<open>selector.Random\<close> is outside the sources at hand: the parameter
  \<open>Random\<close> gives, for the versions of the route, what the call \<open>next()\<close> of the
  selector made from them returns for this request, \<open>(*registry.Node, error)\<close>.
\<close>

definition getService ::
  "('sv list \<Rightarrow> Node option \<times> error option) \<Rightarrow> ('rq, 'sv) Options \<Rightarrow> 'rq
    \<Rightarrow> panic + (string \<times> error option)" where
  "getService Random options r =
     (case Router options of
        None \<Rightarrow> Inr ([], Some (errors_New ''no route found''))
      | Some route \<Rightarrow>
          (case route r of
             (s, Some e) \<Rightarrow> Inr ([], Some e)
           | (None, None) \<Rightarrow> Inl NilPointerDereference
           | (Some service, None) \<Rightarrow>
               (case Random (Versions service) of
                  (s, Some e) \<Rightarrow> Inr ([], None)
                | (None, None) \<Rightarrow> Inl NilPointerDereference
                | (Some s, None) \<Rightarrow> Inr (''http://'' @ Address s, None))))"

text \<open>What \<open>ServeHTTP\<close> does with the response writer: a status, or the reverse proxy.\<close>

datatype 'url response = WriteHeader nat | ReverseProxy 'url

definition StatusNotFound :: nat where
  "StatusNotFound = 404"

definition StatusInternalServerError :: nat where
  "StatusInternalServerError = 500"

text \<open>\<open>url.Parse\<close> of the standard library is the parameter \<open>url_Parse\<close>.\<close>

definition ServeHTTP ::
  "(string \<Rightarrow> 'url \<times> error option) \<Rightarrow> ('sv list \<Rightarrow> Node option \<times> error option)
    \<Rightarrow> ('rq, 'sv) Options \<Rightarrow> 'rq \<Rightarrow> panic + 'url response" where
  "ServeHTTP url_Parse Random options r =
     (case getService Random options r of
        Inl p \<Rightarrow> Inl p
      | Inr (service, Some e) \<Rightarrow> Inr (WriteHeader StatusInternalServerError)
      | Inr (service, None) \<Rightarrow>
          (if length service = 0 then Inr (WriteHeader StatusNotFound)
           else (case url_Parse service of
                   (rp, Some e) \<Rightarrow> Inr (WriteHeader StatusInternalServerError)
                 | (rp, None) \<Rightarrow> Inr (ReverseProxy rp))))"

section \<open>Package client: the backoff between attempts\<close>

text \<open>
  Modelled from the spec: \<open>backoff.Do\<close> of the package \<open>util/backoff\<close>, which is
  not among the sources at hand. The specification gives the policy as
  \<open>duration = min(cap, base * 2^attemptIndex)\<close> with a fixed base and a cap, and
  leaves both constants open: they are the parameters \<open>base\<close> and \<open>cap\<close>.
  Durations are integers (nanoseconds).
\<close>

definition Do :: "int \<Rightarrow> int \<Rightarrow> int \<Rightarrow> int" where
  "Do base cap attempts = min cap (base * 2 ^ nat attempts)"

text \<open>
  \<open>exponentialBackoff(ctx, req, attempts)\<close> returns \<open>backoff.Do(attempts), nil\<close>.
\<close>

definition exponentialBackoff :: "int \<Rightarrow> int \<Rightarrow> 'c \<Rightarrow> 'rq \<Rightarrow> int \<Rightarrow> int \<times> error option" where
  "exponentialBackoff base cap ctx req attempts = (Do base cap attempts, None)"

section \<open>The stream session: propagation and the latched error\<close>

lemma Send_returns: "fst (Send m v s) = fst (SendMsg m v (Stream s))"
  by (simp add: Send_def split: prod.splits)

lemma Recv_returns: "fst (Recv m v s) = fst (RecvMsg m v (Stream s))"
  by (simp add: Recv_def split: prod.splits)

lemma Send_latches: "stream_Error (snd (Send m v s)) = latest (stream_Error s) [fst (Send m v s)]"
  by (cases "SendMsg m v (Stream s)"; cases "fst (SendMsg m v (Stream s))")
    (simp_all add: Send_def stream_Error_def)

lemma Recv_latches: "stream_Error (snd (Recv m v s)) = latest (stream_Error s) [fst (Recv m v s)]"
  by (cases "RecvMsg m v (Stream s)"; cases "fst (RecvMsg m v (Stream s))")
    (simp_all add: Recv_def stream_Error_def)

lemma perform_latches:
  "stream_Error (snd (perform m c s)) = latest (stream_Error s) [fst (perform m c s)]"
  by (cases c) (simp_all add: Send_latches Recv_latches)

lemma run_latches: "stream_Error (snd (run m cs s)) = latest (stream_Error s) (fst (run m cs s))"
proof (induction cs arbitrary: s)
  case Nil
  show ?case by simp
next
  case (Cons c cs)
  obtain e s' where p: "perform m c s = (e, s')"
    by (cases "perform m c s")
  obtain es s'' where r: "run m cs s' = (es, s'')"
    by (cases "run m cs s'")
  have rest: "stream_Error s'' = latest (stream_Error s') es"
    using Cons.IH [of s'] r by simp
  have first: "stream_Error s' = latest (stream_Error s) [e]"
    using perform_latches [of m c s] p by simp
  show ?case
    using p r rest first by (cases e) simp_all
qed

text \<open>
  C1, as stated (the first latched error is never overwritten), fails: on a session whose
  embedded stream fails the first call with E1 and the second with E2, Recv latches E1,
  the later Send returns E2, and afterwards Error() returns E2, not E1.
\<close>

theorem latched_error_overwritten:
  "fst (Recv scripted ''a'' (session [Some (External ''E1''), Some (External ''E2'')]))
     = Some (External ''E1'') \<and>
   stream_Error (snd (Recv scripted ''a'' (session [Some (External ''E1''), Some (External ''E2'')])))
     = Some (External ''E1'') \<and>
   fst (Send scripted ''b''
          (snd (Recv scripted ''a'' (session [Some (External ''E1''), Some (External ''E2'')]))))
     = Some (External ''E2'') \<and>
   stream_Error (snd (Send scripted ''b''
          (snd (Recv scripted ''a'' (session [Some (External ''E1''), Some (External ''E2'')])))))
     = Some (External ''E2'') \<and>
   stream_Error (snd (Send scripted ''b''
          (snd (Recv scripted ''a'' (session [Some (External ''E1''), Some (External ''E2'')])))))
     \<noteq> Some (External ''E1'')"
  by (simp add: session_def New_def scripted_def Send_def Recv_def stream_Error_def)

text \<open>
  C1, amended: a failing Send or Receive stores its error in the session, replacing an
  error latched before. A Send or a Recv that returns the error e leaves Error() = e,
  whatever was latched; and after any sequence of Sends and Receives Error() is the error
  of the most recent failing call (the last error wins), or what it was before the
  sequence when no call failed.
\<close>

theorem last_error_wins:
  "(fst (Send m v s) = Some e \<longrightarrow> stream_Error (snd (Send m v s)) = Some e) \<and>
   (fst (Recv m v s) = Some e \<longrightarrow> stream_Error (snd (Recv m v s)) = Some e) \<and>
   stream_Error (snd (run m cs s)) = latest (stream_Error s) (fst (run m cs s))"
proof -
  have snd_part: "fst (Send m v s) = Some e \<longrightarrow> stream_Error (snd (Send m v s)) = Some e"
    using Send_latches [of m v s] by simp
  have rcv_part: "fst (Recv m v s) = Some e \<longrightarrow> stream_Error (snd (Recv m v s)) = Some e"
    using Recv_latches [of m v s] by simp
  from snd_part rcv_part run_latches [of m cs s]
  show ?thesis by (intro conjI)
qed

theorem last_error_wins_witness:
  "stream_Error (session [Some (External ''E1''), None, Some (External ''E2'')]) = None \<and>
   fst (Send scripted ''a'' (session [Some (External ''E1''), None, Some (External ''E2'')]))
     = Some (External ''E1'') \<and>
   stream_Error (snd (Send scripted ''a''
       (session [Some (External ''E1''), None, Some (External ''E2'')]))) = Some (External ''E1'') \<and>
   fst (Recv scripted ''a'' (session [Some (External ''E1''), None, Some (External ''E2'')]))
     = Some (External ''E1'') \<and>
   stream_Error (snd (Recv scripted ''a''
       (session [Some (External ''E1''), None, Some (External ''E2'')]))) = Some (External ''E1'') \<and>
   fst (run scripted [CallRecv ''a'', CallSend ''b'', CallRecv ''c'']
       (session [Some (External ''E1''), None, Some (External ''E2'')]))
     = [Some (External ''E1''), None, Some (External ''E2'')] \<and>
   stream_Error (snd (run scripted [CallRecv ''a'', CallSend ''b'', CallRecv ''c'']
       (session [Some (External ''E1''), None, Some (External ''E2'')]))) = Some (External ''E2'')"
proof -
  let ?s = "session [Some (External ''E1''), None, Some (External ''E2'')]"
  let ?cs = "[CallRecv ''a'', CallSend ''b'', CallRecv ''c'']"
  have h0: "stream_Error ?s = None"
    by (simp add: session_def New_def stream_Error_def)
  have h1: "fst (Send scripted ''a'' ?s) = Some (External ''E1'')"
    by (simp add: session_def New_def scripted_def Send_def)
  have h2: "fst (Recv scripted ''a'' ?s) = Some (External ''E1'')"
    by (simp add: session_def New_def scripted_def Recv_def)
  have h3: "fst (run scripted ?cs ?s) = [Some (External ''E1''), None, Some (External ''E2'')]"
    by (simp add: session_def New_def scripted_def Send_def Recv_def)
  show ?thesis
    using h0 h1 h2 h3 last_error_wins [of scripted "''a''" ?s "External ''E1''" ?cs]
    by simp
qed

text \<open>
  C5: Send and Recv return to their caller exactly the error of the embedded stream's
  SendMsg and RecvMsg; a Send or Recv that succeeds leaves Error() as it was; hence when a
  Receive fails with E and a later Send succeeds, Error() still returns E.
\<close>

theorem error_propagated_and_kept:
  "fst (Send m v s) = fst (SendMsg m v (Stream s)) \<and>
   fst (Recv m v s) = fst (RecvMsg m v (Stream s)) \<and>
   (fst (Send m v s) = None \<longrightarrow> stream_Error (snd (Send m v s)) = stream_Error s) \<and>
   (fst (Recv m v s) = None \<longrightarrow> stream_Error (snd (Recv m v s)) = stream_Error s) \<and>
   (fst (Recv m v s) = Some E \<and> fst (Send m w (snd (Recv m v s))) = None \<longrightarrow>
      stream_Error (snd (Send m w (snd (Recv m v s)))) = Some E)"
proof -
  have keepS: "fst (Send m x t) = None \<longrightarrow> stream_Error (snd (Send m x t)) = stream_Error t"
    for x t
    using Send_latches [of m x t] by simp
  have keepR: "fst (Recv m v s) = None \<longrightarrow> stream_Error (snd (Recv m v s)) = stream_Error s"
    using Recv_latches [of m v s] by simp
  have latch: "fst (Recv m v s) = Some E \<longrightarrow> stream_Error (snd (Recv m v s)) = Some E"
    using Recv_latches [of m v s] by simp
  have kept: "fst (Recv m v s) = Some E \<and> fst (Send m w (snd (Recv m v s))) = None \<longrightarrow>
      stream_Error (snd (Send m w (snd (Recv m v s)))) = Some E"
    using latch keepS [of w "snd (Recv m v s)"] by simp
  from Send_returns [of m v s] Recv_returns [of m v s] keepS [of v s] keepR kept
  show ?thesis by (intro conjI)
qed

theorem error_propagated_and_kept_witness:
  "stream_Error (session [Some (External ''E''), None]) = None \<and>
   fst (Recv scripted ''a'' (session [Some (External ''E''), None])) = Some (External ''E'') \<and>
   fst (Send scripted ''b'' (snd (Recv scripted ''a'' (session [Some (External ''E''), None]))))
     = None \<and>
   stream_Error (snd (Send scripted ''b''
       (snd (Recv scripted ''a'' (session [Some (External ''E''), None]))))) = Some (External ''E'')"
proof -
  let ?s = "session [Some (External ''E''), None]"
  have h0: "stream_Error ?s = None"
    by (simp add: session_def New_def stream_Error_def)
  have h1: "fst (Recv scripted ''a'' ?s) = Some (External ''E'')"
    by (simp add: session_def New_def scripted_def Recv_def)
  have h2: "fst (Send scripted ''b'' (snd (Recv scripted ''a'' ?s))) = None"
    by (simp add: session_def New_def scripted_def Recv_def Send_def)
  show ?thesis
    using h0 h1 h2 error_propagated_and_kept [of scripted "''a''" ?s "External ''E''" "''b''"]
    by blast
qed

text \<open>
  C9: the byte read of the session's request view returns the empty slice and the nil
  error, whatever the session.
\<close>

theorem request_Read_empty: "request_Read (stream_Request s) = ([], None)"
  by (simp add: request_Read_def)

section \<open>The event made from a transport message\<close>

text \<open>
  C4: the event made from a transport message holds a message whose header map is the
  input's (the same keys, the same value at every key) and whose body is the input's
  byte list; nothing is changed or checked on the way.
\<close>

theorem newEvent_lossless:
  "\<exists>m. event_Message (newEvent msg) = Some m \<and> broker_Header m = Header msg \<and>
     dom (broker_Header m) = dom (Header msg) \<and> (\<forall>k. broker_Header m k = Header msg k) \<and>
     broker_Body m = Body msg"
  by (simp add: newEvent_def event_Message_def)

text \<open>
  C6: Ack returns the nil error and leaves the event as it was, for the events made by
  newEvent and for any other event.
\<close>

theorem event_Ack_noop: "event_Ack (newEvent msg) = (None, newEvent msg) \<and> event_Ack e = (None, e)"
  by (simp add: event_Ack_def)

text \<open>
  C7: on an event made by newEvent, Topic returns the value the message's header holds
  under the key headers.Message, and the empty string (no panic) when the header has no
  such key.
\<close>

theorem event_Topic_from_header:
  "(Header msg k = Some t \<longrightarrow> event_Topic k (newEvent msg) = Inr t) \<and>
   (Header msg k = None \<longrightarrow> event_Topic k (newEvent msg) = Inr [])"
  by (simp add: event_Topic_def newEvent_def)

theorem event_Topic_from_header_witness:
  "Header \<lparr>Header = [''Micro-Topic'' \<mapsto> ''orders''], Body = []\<rparr> ''Micro-Topic'' = Some ''orders'' \<and>
   event_Topic ''Micro-Topic'' (newEvent \<lparr>Header = [''Micro-Topic'' \<mapsto> ''orders''], Body = []\<rparr>)
     = Inr ''orders'' \<and>
   Header \<lparr>Header = Map.empty, Body = []\<rparr> ''Micro-Topic'' = None \<and>
   event_Topic ''Micro-Topic'' (newEvent \<lparr>Header = Map.empty, Body = []\<rparr>) = Inr []"
proof -
  let ?m = "\<lparr>Header = [''Micro-Topic'' \<mapsto> ''orders''], Body = []\<rparr>"
  let ?n = "\<lparr>Header = Map.empty, Body = []\<rparr>"
  have h1: "Header ?m ''Micro-Topic'' = Some ''orders''"
    by simp
  have h2: "Header ?n ''Micro-Topic'' = None"
    by simp
  show ?thesis
    using h1 h2 event_Topic_from_header [of ?m "''Micro-Topic''" "''orders''"]
      event_Topic_from_header [of ?n "''Micro-Topic''" "''orders''"]
    by blast
qed

text \<open>
  C8: newEvent yields an event for every transport message: its Error() is nil, its
  message is there, and its topic can be read (no panic); for the message with no header
  and no body the topic read is the empty string.
\<close>

theorem newEvent_total:
  "event_Error (newEvent msg) = None \<and>
   (\<exists>m. event_Message (newEvent msg) = Some m) \<and>
   (\<exists>t. event_Topic k (newEvent msg) = Inr t) \<and>
   event_Message (newEvent \<lparr>Header = Map.empty, Body = []\<rparr>)
     = Some \<lparr>broker_Header = Map.empty, broker_Body = []\<rparr> \<and>
   event_Topic k (newEvent \<lparr>Header = Map.empty, Body = []\<rparr>) = Inr []"
  by (simp add: event_Error_def event_Message_def event_Topic_def newEvent_def
      split: option.splits)

section \<open>The protobuf marshaler\<close>

text \<open>
  C3: Marshal and Unmarshal return ErrInvalidMessage exactly when the value handed in is
  not a protobuf message; for a protobuf message the error returned is nil or the
  library's own.
\<close>

theorem ErrInvalidMessage_iff_not_proto:
  "(snd (Marshal pm v) = Some ErrInvalidMessage) = (\<not> is_proto_Message v) \<and>
   (fst (Unmarshal pu d v) = Some ErrInvalidMessage) = (\<not> is_proto_Message v)"
  by (cases v) (auto simp: Marshal_def Unmarshal_def split: prod.splits option.splits)

section \<open>The reverse proxy handler\<close>

text \<open>
  C10: when the router gives a route and the selector's next() returns an error, getService
  returns the empty string and the nil error (the selector's error is dropped), and
  ServeHTTP answers 404 Not Found, not 500.
\<close>

theorem no_node_gives_not_found:
  assumes "Router options = Some route" and "route r = (Some service, None)"
    and "Random (Versions service) = (n, Some e)"
  shows "getService Random options r = Inr ([], None) \<and>
         ServeHTTP url_Parse Random options r = Inr (WriteHeader StatusNotFound) \<and>
         StatusNotFound = 404 \<and> StatusNotFound \<noteq> StatusInternalServerError"
proof -
  have g: "getService Random options r = Inr ([], None)"
    using assms by (simp add: getService_def split: option.splits)
  show ?thesis
    using g by (simp add: ServeHTTP_def StatusNotFound_def StatusInternalServerError_def)
qed

theorem no_node_gives_not_found_witness:
  "Router \<lparr>Router = Some (\<lambda>r. (Some \<lparr>Versions = []\<rparr>, None))\<rparr>
     = Some (\<lambda>r. (Some \<lparr>Versions = []\<rparr>, None)) \<and>
   getService (\<lambda>vs. (None, Some (External ''none available'')))
     \<lparr>Router = Some (\<lambda>r. (Some \<lparr>Versions = ([] :: unit list)\<rparr>, None))\<rparr> ''/orders''
     = Inr ([], None) \<and>
   ServeHTTP (\<lambda>u. (u, None)) (\<lambda>vs. (None, Some (External ''none available'')))
     \<lparr>Router = Some (\<lambda>r. (Some \<lparr>Versions = ([] :: unit list)\<rparr>, None))\<rparr> ''/orders''
     = Inr (WriteHeader 404)"
proof -
  let ?route = "\<lambda>r :: string. (Some \<lparr>Versions = ([] :: unit list)\<rparr>, None :: error option)"
  let ?Random = "\<lambda>vs :: unit list. (None :: Node option, Some (External ''none available''))"
  have h1: "Router \<lparr>Router = Some ?route\<rparr> = Some ?route"
    by simp
  have h2: "?route ''/orders'' = (Some \<lparr>Versions = []\<rparr>, None)"
    by simp
  have h3: "?Random (Versions \<lparr>Versions = ([] :: unit list)\<rparr>) = (None, Some (External ''none available''))"
    by simp
  show ?thesis
    using no_node_gives_not_found [OF h1 h2 h3, where url_Parse = "\<lambda>u :: string. (u, None)"]
    by simp
qed

section \<open>The backoff\<close>

text \<open>
  C2: with a base and a cap that are not negative, the backoff of every attempt index
  i \<ge> 0 is not negative, is at most the backoff of the index i + 1, which is at most the
  cap, and it is min(cap, base * 2^i); no error is returned.
\<close>

theorem exponentialBackoff_bounds:
  assumes "0 \<le> base" and "0 \<le> cap" and "0 \<le> i"
  shows "0 \<le> fst (exponentialBackoff base cap c req i) \<and>
    fst (exponentialBackoff base cap c req i) \<le> fst (exponentialBackoff base cap c req (i + 1)) \<and>
    fst (exponentialBackoff base cap c req (i + 1)) \<le> cap \<and>
    fst (exponentialBackoff base cap c req i) = min cap (base * 2 ^ nat i) \<and>
    snd (exponentialBackoff base cap c req i) = None"
proof -
  have n: "nat (i + 1) = Suc (nat i)"
    using assms(3) by simp
  have p: "0 \<le> base * 2 ^ nat i"
    using assms(1) by simp
  have g: "base * 2 ^ nat i \<le> base * 2 ^ nat (i + 1)"
    using p n by simp
  show ?thesis
    using assms(2) p g by (simp add: exponentialBackoff_def Do_def min_def)
qed

theorem exponentialBackoff_bounds_witness:
  "(0::int) \<le> 100 \<and> (0::int) \<le> 1000 \<and> (0::int) \<le> 3 \<and>
   fst (exponentialBackoff 100 1000 () () 3) = 800 \<and>
   fst (exponentialBackoff 100 1000 () () (3 + 1)) = 1000 \<and>
   fst (exponentialBackoff 100 1000 () () 3) \<le> fst (exponentialBackoff 100 1000 () () (3 + 1))"
proof -
  have v: "fst (exponentialBackoff 100 1000 () () 3) = 800"
    "fst (exponentialBackoff 100 1000 () () (3 + 1)) = 1000"
    by (simp_all add: exponentialBackoff_def Do_def)
  show ?thesis
    using v exponentialBackoff_bounds [of 100 1000 3 "()" "()"] by simp
qed

end
